theory Spec2Isabelle
  imports Complex_Main "HOL-Library.Char_ord" "HOL-Library.List_Lexorder"
begin

section \<open>uACR monitoring and treatment adherence: the data model\<close>

text \<open>
  The embedding follows \<^verbatim>\<open>scripts/uacr_monitoring_adherence_algorithm.py\<close>.
  A Python number is modelled by the real it denotes: comparisons of Python numbers are
  exact. The percent change of a trend analysis is tested against the tier limits after
  rounding, so its computation is a parameter of the model (section
  \<open>Floating-point arithmetic\<close>); the adherence ratios are modelled by their exact quotients.
  Every \<^verbatim>\<open>raise\<close> the typed inputs can reach is a value of \<open>error\<close>.
\<close>

datatype error = ZeroDivisionError | ValueError | TypeError

datatype uACRCategory = NORMOALBUMINURIA | MICROALBUMINURIA | MACROALBUMINURIA

datatype WorseningLevel = NO_CHANGE | MILD | MODERATE | SEVERE | CATEGORY_PROGRESSION

datatype TreatmentRecommendation =
  CONTINUE_MONITORING | CONSIDER_TREATMENT | STRONGLY_RECOMMEND | URGENT_TREATMENT

text \<open>One entry of \<^verbatim>\<open>patient['uacr_history']\<close>: the keys \<^verbatim>\<open>'date'\<close> and \<^verbatim>\<open>'value'\<close>.\<close>

record reading =
  date :: string
  rvalue :: real

text \<open>The dictionary \<^verbatim>\<open>jardiance['adherence']\<close>; \<open>None\<close> is an absent key.\<close>

record adherence_block =
  a_MPR :: "real option"
  a_PDC :: "real option"
  a_category :: "string option"
  a_last_30_days :: "real option"
  a_last_90_days :: "real option"

text \<open>The dictionary \<^verbatim>\<open>jardiance['refills']\<close>, with the one key the algorithm reads.\<close>

record refill_block =
  r_refill_gap_days :: "int option"

text \<open>The dictionary \<^verbatim>\<open>patient['jardiance']\<close>.\<close>

record jardiance_record =
  j_prescribed :: "bool option"
  j_medication :: "string option"
  j_adherence :: "adherence_block option"
  j_refills :: "refill_block option"
  j_barriers :: "string list option"
  j_interventions :: "string list option"

text \<open>
  The patient dictionary. \<^verbatim>\<open>patientId\<close> and \<^verbatim>\<open>name\<close> are read with
  \<^verbatim>\<open>patient[...]\<close> and are mandatory; the other keys are read with
  \<^verbatim>\<open>.get\<close> or guarded by \<^verbatim>\<open>in\<close>, so they are optional.
\<close>

record patient =
  patientId :: string
  name :: string
  eGFR :: "real option"
  ckdStage :: "int option"
  uACR :: "real option"
  comorbidities :: "string list option"
  uacr_history :: "reading list option"
  jardiance :: "jardiance_record option"

record uACRAnalysis =
  patient_id :: string
  patient_name :: string
  current_uacr :: real
  previous_uacr :: real
  percent_change :: real
  current_category :: uACRCategory
  previous_category :: uACRCategory
  worsening_level :: WorseningLevel
  is_worsening :: bool
  date_current :: string
  date_previous :: string
  days_between :: int

record AdherenceAnalysis =
  on_treatment :: bool
  medication :: "string option"
  mpr :: "real option"
  pdc :: "real option"
  adherence_category :: "string option"
  last_30_days :: "real option"
  last_90_days :: "real option"
  refill_gap_days :: "int option"
  is_adherent :: bool
  barriers :: "string list"
  interventions :: "string list"

section \<open>Dates\<close>

text \<open>
  \<^verbatim>\<open>datetime.fromisoformat\<close> on the date-only form \<^verbatim>\<open>YYYY-MM-DD\<close>, the form of
  every date in the repository's data (\<^verbatim>\<open>isoformat()[:10]\<close>). The result is the
  proleptic Gregorian ordinal of the day (midnight), so that subtracting two results is
  \<^verbatim>\<open>(a - b).days\<close> and adding \<open>i\<close> is \<^verbatim>\<open>+ timedelta(days=i)\<close>. A string that
  is not a valid date of this form is a \<^verbatim>\<open>ValueError\<close>; strings carrying a time
  of day are outside the model.
\<close>

definition digit_of :: "char \<Rightarrow> nat option" where
  "digit_of c = (let n = (of_char c :: nat) in if 48 \<le> n \<and> n \<le> 57 then Some (n - 48) else None)"

definition digits_value :: "string \<Rightarrow> int option" where
  "digits_value cs =
     map_option (\<lambda>ds. int (foldl (\<lambda>n d. 10 * n + d) 0 ds)) (those (map digit_of cs))"

definition is_leap :: "int \<Rightarrow> bool" where
  "is_leap y = (y mod 4 = 0 \<and> (y mod 100 \<noteq> 0 \<or> y mod 400 = 0))"

definition days_in_month :: "int \<Rightarrow> int \<Rightarrow> int" where
  "days_in_month y m =
     (if m = 2 then (if is_leap y then 29 else 28)
      else if m = 4 \<or> m = 6 \<or> m = 9 \<or> m = 11 then 30 else 31)"

definition days_before_year :: "int \<Rightarrow> int" where
  "days_before_year y = (y - 1) * 365 + (y - 1) div 4 - (y - 1) div 100 + (y - 1) div 400"

definition days_before_month :: "int \<Rightarrow> int \<Rightarrow> int" where
  "days_before_month y m = sum_list (map (days_in_month y) [1..m - 1])"

definition ymd2ord :: "int \<Rightarrow> int \<Rightarrow> int \<Rightarrow> int" where
  "ymd2ord y m d = days_before_year y + days_before_month y m + d"

definition fromisoformat :: "string \<Rightarrow> error + int" where
  "fromisoformat s =
     (if length s = 10 \<and> s ! 4 = CHR ''-'' \<and> s ! 7 = CHR ''-'' then
        (case (digits_value (take 4 s), digits_value (take 2 (drop 5 s)), digits_value (drop 8 s)) of
           (Some y, Some m, Some d) \<Rightarrow>
             if 1 \<le> y \<and> 1 \<le> m \<and> m \<le> 12 \<and> 1 \<le> d \<and> d \<le> days_in_month y m
             then Inr (ymd2ord y m d) else Inl ValueError
         | _ \<Rightarrow> Inl ValueError)
      else Inl ValueError)"

section \<open>Floating-point arithmetic\<close>

text \<open>
  The source computes the percent change as
  \<^verbatim>\<open>((current_value - previous_value) / previous_value) * 100\<close>, in double precision:
  the value it stores and tests is rounded, and differs from the exact quotient in general.
  The trend analysis below takes this computation as its first argument \<open>pct\<close>, a function
  of the two values, so that what is proved about the analysis holds for every rounding.

  \<open>double_percent\<close> is that computation for float readings: each of the three operations
  returns the exact result rounded to the nearest double, ties to even. A double is
  \<open>q * 2 ^ e\<close> with an integer \<open>q < 2 ^ 53\<close> and \<open>e \<ge> - 1074\<close>; \<open>scale_down\<close> and \<open>scale_up\<close> bring the
  magnitude of a real between \<open>2 ^ 52\<close> and \<open>2 ^ 53\<close> (or to the least exponent), where
  rounding to a double is rounding to an integer. Integer readings below \<open>2 ^ 53\<close> give the
  same results. Results of \<open>2 ^ 1024\<close> and beyond, which the machine turns into infinity,
  are outside the model.
\<close>

function scale_down :: "real \<Rightarrow> int \<Rightarrow> real \<times> int" where
  "scale_down m e = (if 2 ^ 53 \<le> m then scale_down (m / 2) (e + 1) else (m, e))"
  by pat_completeness auto
termination
proof (relation "measure (\<lambda>(m, e). nat \<lfloor>m\<rfloor>)")
  show "wf (measure (\<lambda>(m, e). nat \<lfloor>m\<rfloor>))" by simp
next
  fix m :: real and e :: int
  assume a: "2 ^ 53 \<le> m"
  then have "m / 2 \<le> m - 1" by simp
  then have "\<lfloor>m / 2\<rfloor> \<le> \<lfloor>m - 1\<rfloor>" by (rule floor_mono)
  moreover have "\<lfloor>m - 1\<rfloor> = \<lfloor>m\<rfloor> - 1" by simp
  moreover from a have "1 \<le> \<lfloor>m\<rfloor>" by simp
  ultimately show "((m / 2, e + 1), (m, e)) \<in> measure (\<lambda>(m, e). nat \<lfloor>m\<rfloor>)"
    by simp
qed

function scale_up :: "real \<Rightarrow> int \<Rightarrow> real \<times> int" where
  "scale_up m e = (if m < 2 ^ 52 \<and> - 1074 < e then scale_up (m * 2) (e - 1) else (m, e))"
  by pat_completeness auto
termination
  by (relation "measure (\<lambda>(m, e). nat (e + 1074))") auto

definition round_half_even :: "real \<Rightarrow> int" where
  "round_half_even m =
     (let n = \<lfloor>m\<rfloor>; f = m - of_int n
      in if f < 1 / 2 then n else if 1 / 2 < f then n + 1 else if even n then n else n + 1)"

definition round_double :: "real \<Rightarrow> real" where
  "round_double x =
     (case scale_down \<bar>x\<bar> 0 of
        (m, e) \<Rightarrow>
          (case scale_up m e of
             (m', e') \<Rightarrow> sgn x * of_int (round_half_even m') * 2 powi e'))"

definition double_percent :: "real \<Rightarrow> real \<Rightarrow> real" where
  "double_percent current_value previous_value =
     round_double (round_double (round_double (current_value - previous_value) / previous_value)
                   * 100)"

section \<open>Trend Analyzer\<close>

definition categorize_uacr :: "real \<Rightarrow> uACRCategory" where
  "categorize_uacr uacr_value =
     (if uacr_value < 30 then NORMOALBUMINURIA
      else if uacr_value \<le> 300 then MICROALBUMINURIA
      else MACROALBUMINURIA)"

text \<open>
  \<^verbatim>\<open>sorted(history, key=lambda x: x['date'], reverse=True)\<close>: the key is the date
  string, compared as a string; the sort is stable, and with \<^verbatim>\<open>reverse=True\<close> it
  sorts the reversed list ascending and reverses the result.
\<close>

definition sorted_desc :: "reading list \<Rightarrow> reading list" where
  "sorted_desc h = rev (sort_key date (rev h))"

text \<open>
  The chain of \<^verbatim>\<open>if/elif\<close> that sets \<^verbatim>\<open>worsening_level\<close> and
  \<^verbatim>\<open>is_worsening\<close> in \<^verbatim>\<open>analyze_uacr_change\<close>, on the two values and the
  percent change that was computed from them.
\<close>

definition worsening_of :: "real \<Rightarrow> real \<Rightarrow> real \<Rightarrow> WorseningLevel \<times> bool" where
  "worsening_of current_value previous_value pc =
     (let current_cat = categorize_uacr current_value;
          previous_cat = categorize_uacr previous_value;
          worsening = (current_value > previous_value)
      in if \<not> worsening then (NO_CHANGE, worsening)
         else if current_cat \<noteq> previous_cat then (CATEGORY_PROGRESSION, worsening)
         else if pc > 100 then (SEVERE, worsening)
         else if pc > 50 then (MODERATE, worsening)
         else if pc > 30 then (MILD, worsening)
         else (NO_CHANGE, False))"

definition analyze_uacr_change ::
  "(real \<Rightarrow> real \<Rightarrow> real) \<Rightarrow> patient \<Rightarrow> error + uACRAnalysis option" where
  "analyze_uacr_change pct p =
     (case uacr_history p of
        None \<Rightarrow> Inr None
      | Some h \<Rightarrow>
          if length h < 2 then Inr None
          else
            let hist = sorted_desc h;
                current = hist ! 0;
                previous = hist ! 1;
                current_value = rvalue current;
                previous_value = rvalue previous
            in if previous_value = 0 then Inl ZeroDivisionError
               else
                 let pc = pct current_value previous_value;
                     wl = worsening_of current_value previous_value pc
                 in (case fromisoformat (date current) of
                      Inl e \<Rightarrow> Inl e
                    | Inr dc \<Rightarrow>
                        (case fromisoformat (date previous) of
                           Inl e \<Rightarrow> Inl e
                         | Inr dp \<Rightarrow>
                             Inr (Some \<lparr>patient_id = patientId p,
                                        patient_name = name p,
                                        current_uacr = current_value,
                                        previous_uacr = previous_value,
                                        percent_change = pc,
                                        current_category = categorize_uacr current_value,
                                        previous_category = categorize_uacr previous_value,
                                        worsening_level = fst wl,
                                        is_worsening = snd wl,
                                        date_current = date current,
                                        date_previous = date previous,
                                        days_between = dc - dp\<rparr>))))"

section \<open>Adherence Calculator\<close>

text \<open>\<^verbatim>\<open>d.get(key, default)\<close> on an optional key.\<close>

definition get_or :: "'a option \<Rightarrow> 'a \<Rightarrow> 'a" where
  "get_or v d = (case v of None \<Rightarrow> d | Some x \<Rightarrow> x)"

text \<open>
  \<^verbatim>\<open>len(refill_dates) * days_supply / period_days\<close> is a true division: Python
  raises \<^verbatim>\<open>ZeroDivisionError\<close> when \<^verbatim>\<open>period_days\<close> is \<open>0\<close>.
\<close>

definition calculate_mpr :: "string list \<Rightarrow> int \<Rightarrow> int \<Rightarrow> error + real" where
  "calculate_mpr refill_dates days_supply period_days =
     (if refill_dates = [] then Inr 0
      else
        let total_days_supplied = int (length refill_dates) * days_supply
        in if period_days = 0 then Inl ZeroDivisionError
           else Inr (min (real_of_int total_days_supplied / real_of_int period_days * 100) 100))"

text \<open>
  The inner loop \<^verbatim>\<open>for i in range(days_supply)\<close> of \<^verbatim>\<open>calculate_pdc\<close> for one
  refill date: \<^verbatim>\<open>range\<close> of a negative number is empty.
\<close>

definition cover_refill :: "int \<Rightarrow> int \<Rightarrow> int \<Rightarrow> int \<Rightarrow> int set \<Rightarrow> int set" where
  "cover_refill refill_date days_supply start end_d covered_days =
     fold (\<lambda>i acc. let day = refill_date + int i
                     in if start \<le> day \<and> day \<le> end_d then insert day acc else acc)
          [0..<nat days_supply] covered_days"

text \<open>The outer loop over the refill dates; each date is parsed when its turn comes.\<close>

fun cover_refills :: "string list \<Rightarrow> int \<Rightarrow> int \<Rightarrow> int \<Rightarrow> int set \<Rightarrow> error + int set" where
  "cover_refills [] days_supply start end_d covered_days = Inr covered_days"
| "cover_refills (refill_date_str # rest) days_supply start end_d covered_days =
     (case fromisoformat refill_date_str of
        Inl e \<Rightarrow> Inl e
      | Inr refill_date \<Rightarrow>
          cover_refills rest days_supply start end_d
            (cover_refill refill_date days_supply start end_d covered_days))"

definition calculate_pdc :: "string list \<Rightarrow> int \<Rightarrow> string \<Rightarrow> string \<Rightarrow> error + real" where
  "calculate_pdc refill_dates days_supply start_date end_date =
     (if refill_dates = [] then Inr 0
      else
        (case fromisoformat start_date of
           Inl e \<Rightarrow> Inl e
         | Inr start \<Rightarrow>
             (case fromisoformat end_date of
                Inl e \<Rightarrow> Inl e
              | Inr end_d \<Rightarrow>
                  let period_days = end_d - start
                  in if period_days \<le> 0 then Inr 0
                     else
                       (case cover_refills refill_dates days_supply start end_d {} of
                          Inl e \<Rightarrow> Inl e
                        | Inr covered_days \<Rightarrow>
                            Inr (min (real (card covered_days) / real_of_int period_days * 100)
                                     100)))))"

definition not_on_treatment :: AdherenceAnalysis where
  "not_on_treatment =
     \<lparr>on_treatment = False, medication = None, mpr = None, pdc = None,
      adherence_category = None, last_30_days = None, last_90_days = None,
      refill_gap_days = None, is_adherent = False, barriers = [], interventions = []\<rparr>"

definition analyze_adherence :: "patient \<Rightarrow> AdherenceAnalysis" where
  "analyze_adherence p =
     (case jardiance p of
        None \<Rightarrow> not_on_treatment
      | Some jardiance_data \<Rightarrow>
          if \<not> get_or (j_prescribed jardiance_data) False then not_on_treatment
          else
            let adherence_data = j_adherence jardiance_data;
                refill_data = j_refills jardiance_data;
                mpr_v = get_or (Option.bind adherence_data a_MPR) 0;
                pdc_v = get_or (Option.bind adherence_data a_PDC) 0;
                category_v = get_or (Option.bind adherence_data a_category) ''Unknown'';
                last_30 = get_or (Option.bind adherence_data a_last_30_days) 0;
                last_90 = get_or (Option.bind adherence_data a_last_90_days) 0;
                gap = get_or (Option.bind refill_data r_refill_gap_days) 0;
                adherent = (mpr_v \<ge> 80 \<and> gap \<le> 7)
            in \<lparr>on_treatment = True,
                medication = Some (get_or (j_medication jardiance_data) ''Jardiance''),
                mpr = Some mpr_v,
                pdc = Some pdc_v,
                adherence_category = Some category_v,
                last_30_days = Some last_30,
                last_90_days = Some last_90,
                refill_gap_days = Some gap,
                is_adherent = adherent,
                barriers = get_or (j_barriers jardiance_data) [],
                interventions = get_or (j_interventions jardiance_data) []\<rparr>)"

section \<open>Eligibility Evaluator\<close>

text \<open>
  The rationale is the list \<^verbatim>\<open>reasons\<close> before it is joined into text; each
  constructor is one of the source's reason strings, with the number it formats.
\<close>

datatype reason =
    Below_approved_range
  | Diabetic_CKD_stage int
  | Non_diabetic_CKD_stage int
  | Macroalbuminuria real
  | Significant_albuminuria real
  | Microalbuminuria real
  | Hypertension_present
  | Heart_failure_present
  | Advanced_CKD_stage int
  | Does_not_meet_criteria

definition evaluate_treatment_eligibility ::
  "patient \<Rightarrow> bool \<times> TreatmentRecommendation \<times> reason list" where
  "evaluate_treatment_eligibility p =
     (let egfr = get_or (eGFR p) 0;
          ckd_stage = get_or (ckdStage p) 0;
          uacr = get_or (uACR p) 0;
          comorbidities_l = get_or (comorbidities p) [];
          has_diabetes = (''Diabetes'' \<in> set comorbidities_l)
      in if egfr < 20 then (False, CONTINUE_MONITORING, [Below_approved_range])
         else
           let primary =
                 (if has_diabetes \<and> ckd_stage \<ge> 2 then
                    (if uacr \<ge> 300 then
                       (True, URGENT_TREATMENT, [Diabetic_CKD_stage ckd_stage, Macroalbuminuria uacr])
                     else if uacr \<ge> 200 then
                       (True, STRONGLY_RECOMMEND,
                        [Diabetic_CKD_stage ckd_stage, Significant_albuminuria uacr])
                     else if uacr \<ge> 30 then
                       (True, STRONGLY_RECOMMEND,
                        [Diabetic_CKD_stage ckd_stage, Microalbuminuria uacr])
                     else (True, CONSIDER_TREATMENT, [Diabetic_CKD_stage ckd_stage]))
                  else if \<not> has_diabetes \<and> ckd_stage \<ge> 3 \<and> uacr \<ge> 200 then
                    (if uacr \<ge> 300 then
                       (True, URGENT_TREATMENT,
                        [Non_diabetic_CKD_stage ckd_stage, Macroalbuminuria uacr])
                     else
                       (True, STRONGLY_RECOMMEND,
                        [Non_diabetic_CKD_stage ckd_stage, Significant_albuminuria uacr]))
                  else (False, CONTINUE_MONITORING, []));
               eligible = fst primary;
               level1 = fst (snd primary);
               reasons1 = snd (snd primary);
               reasons2 = (if eligible \<and> ''Hypertension'' \<in> set comorbidities_l
                           then reasons1 @ [Hypertension_present] else reasons1);
               reasons3 = (if eligible \<and> ''Heart Failure'' \<in> set comorbidities_l
                           then reasons2 @ [Heart_failure_present] else reasons2);
               reasons4 = (if eligible \<and> ckd_stage \<ge> 4
                           then reasons3 @ [Advanced_CKD_stage ckd_stage] else reasons3);
               level2 = (if eligible \<and> ckd_stage \<ge> 4 then URGENT_TREATMENT else level1)
           in (eligible, level2,
               if reasons4 = [] then [Does_not_meet_criteria] else reasons4))"

section \<open>Alert Composer\<close>

text \<open>
  The alert without its generated text: \<^verbatim>\<open>alert_id\<close> and \<^verbatim>\<open>timestamp\<close> read
  the clock, and \<^verbatim>\<open>message\<close>, \<^verbatim>\<open>recommended_actions\<close> and
  \<^verbatim>\<open>clinical_rationale\<close> are formatted prose. The two fields that repeat names of
  the trend analysis carry the prefix \<open>alert_\<close>.
\<close>

record ClinicalAlert =
  severity :: string
  alert_patient_id :: string
  alert_patient_name :: string
  alert_type :: string
  uacr_analysis :: uACRAnalysis
  adherence_analysis :: "AdherenceAnalysis option"
  treatment_recommendation :: "TreatmentRecommendation option"

text \<open>
  What building the text of an on-treatment alert needs: the message formats
  \<^verbatim>\<open>mpr\<close> with \<^verbatim>\<open>:.1f\<close>; for a non-adherent patient the actions and the
  rationale compare \<^verbatim>\<open>refill_gap_days\<close> with a number; for an adherent patient the
  rationale formats \<^verbatim>\<open>pdc\<close> with \<^verbatim>\<open>:.1f\<close>. On \<^verbatim>\<open>None\<close> each of these
  raises \<^verbatim>\<open>TypeError\<close>.
\<close>

definition text_formats :: "AdherenceAnalysis \<Rightarrow> bool" where
  "text_formats a =
     (mpr a \<noteq> None \<and>
      (if \<not> is_adherent a then refill_gap_days a \<noteq> None else pdc a \<noteq> None))"

definition generate_clinical_alert ::
  "patient \<Rightarrow> uACRAnalysis \<Rightarrow> AdherenceAnalysis option \<Rightarrow> error + ClinicalAlert" where
  "generate_clinical_alert p analysis adherence =
     (let sev = (if worsening_level analysis = SEVERE then ''CRITICAL''
                 else if worsening_level analysis = CATEGORY_PROGRESSION then ''HIGH''
                 else if worsening_level analysis = MODERATE then ''HIGH''
                 else if worsening_level analysis = MILD then ''MODERATE''
                 else ''LOW'');
          treated = (case adherence of None \<Rightarrow> False | Some a \<Rightarrow> on_treatment a);
          a_type = (if treated then ''UACR_WORSENING_ON_TREATMENT''
                    else ''UACR_WORSENING_UNTREATED'');
          recommendation = (if \<not> treated
                            then Some (fst (snd (evaluate_treatment_eligibility p)))
                            else None)
      in if treated \<and> \<not> (case adherence of None \<Rightarrow> True | Some a \<Rightarrow> text_formats a)
         then Inl TypeError
         else Inr \<lparr>severity = sev,
                   alert_patient_id = patientId p,
                   alert_patient_name = patient_name analysis,
                   alert_type = a_type,
                   uacr_analysis = analysis,
                   adherence_analysis = adherence,
                   treatment_recommendation = recommendation\<rparr>)"

section \<open>Batch Processor\<close>

text \<open>
  \<^verbatim>\<open>self.alerts\<close> is passed in and returned. An exception leaves
  \<^verbatim>\<open>process_patient\<close> before the append, and \<^verbatim>\<open>process_database\<close> has no
  handler, so it leaves the loop too. Console output is not modelled.
\<close>

definition process_patient ::
  "(real \<Rightarrow> real \<Rightarrow> real) \<Rightarrow> patient \<Rightarrow> ClinicalAlert list \<Rightarrow>
     error + (ClinicalAlert option \<times> ClinicalAlert list)" where
  "process_patient pct p alerts =
     (case analyze_uacr_change pct p of
        Inl e \<Rightarrow> Inl e
      | Inr None \<Rightarrow> Inr (None, alerts)
      | Inr (Some analysis) \<Rightarrow>
          if \<not> is_worsening analysis then Inr (None, alerts)
          else
            (case generate_clinical_alert p analysis (Some (analyze_adherence p)) of
               Inl e \<Rightarrow> Inl e
             | Inr alert \<Rightarrow> Inr (Some alert, alerts @ [alert])))"

fun process_loop ::
  "(real \<Rightarrow> real \<Rightarrow> real) \<Rightarrow> patient list \<Rightarrow> ClinicalAlert list \<Rightarrow>
     error + ClinicalAlert list" where
  "process_loop pct [] alerts = Inr alerts"
| "process_loop pct (p # rest) alerts =
     (case process_patient pct p alerts of
        Inl e \<Rightarrow> Inl e
      | Inr (alert, alerts') \<Rightarrow> process_loop pct rest alerts')"

definition process_database ::
  "(real \<Rightarrow> real \<Rightarrow> real) \<Rightarrow> patient list \<Rightarrow> error + ClinicalAlert list" where
  "process_database pct patients = process_loop pct patients []"

section \<open>The worsening level as the specification words it\<close>

text \<open>
  The bands of the specification: A below 30, B from 30 to 300, both included, C above 300.
  Band A is \<open>NORMOALBUMINURIA\<close>, band B \<open>MICROALBUMINURIA\<close>, band C \<open>MACROALBUMINURIA\<close>.
\<close>

definition spec_band :: "real \<Rightarrow> uACRCategory" where
  "spec_band v =
     (if v < 30 then NORMOALBUMINURIA
      else if 30 \<le> v \<and> v \<le> 300 then MICROALBUMINURIA
      else MACROALBUMINURIA)"

text \<open>
  The clauses of the specification's contract for the Trend Analyzer, read in the order they
  are written, on the current value \<open>c\<close>, the previous value \<open>p\<close> and the percent change
  \<open>pc\<close>: the no-change clause comes first and holds for every rise of at most 30 percent.
\<close>

definition claimed_worsening_level :: "real \<Rightarrow> real \<Rightarrow> real \<Rightarrow> WorseningLevel" where
  "claimed_worsening_level c p pc =
     (if c \<le> p \<or> (c > p \<and> pc \<le> 30) then NO_CHANGE
      else if c > p \<and> spec_band c \<noteq> spec_band p then CATEGORY_PROGRESSION
      else if pc > 100 then SEVERE
      else if 50 < pc \<and> pc \<le> 100 then MODERATE
      else MILD)"

text \<open>
  The same clauses with the band change tested before every percentage clause, the
  no-change clause for small rises included.
\<close>

definition amended_worsening_level :: "real \<Rightarrow> real \<Rightarrow> real \<Rightarrow> WorseningLevel" where
  "amended_worsening_level c p pc =
     (if c \<le> p then NO_CHANGE
      else if spec_band c \<noteq> spec_band p then CATEGORY_PROGRESSION
      else if pc \<le> 30 then NO_CHANGE
      else if pc > 100 then SEVERE
      else if 50 < pc \<and> pc \<le> 100 then MODERATE
      else MILD)"

section \<open>The eligibility decision order as the specification words it\<close>

text \<open>
  Steps 1 to 5 of the specification's contract for the Eligibility Evaluator, on the four
  inputs it names: filtration estimate, stage, albuminuria, and whether the patient is diabetic.
\<close>

definition spec_eligibility :: "real \<Rightarrow> int \<Rightarrow> real \<Rightarrow> bool \<Rightarrow> bool \<times> TreatmentRecommendation" where
  "spec_eligibility egfr stage albuminuria diabetic =
     (let decided =
            (if egfr < 20 then (False, CONTINUE_MONITORING)
             else if diabetic \<and> stage \<ge> 2 then
               (True, if albuminuria \<ge> 300 then URGENT_TREATMENT
                      else if albuminuria \<ge> 200 \<or> albuminuria \<ge> 30 then STRONGLY_RECOMMEND
                      else CONSIDER_TREATMENT)
             else if \<not> diabetic \<and> stage \<ge> 3 \<and> albuminuria \<ge> 200 then
               (True, if albuminuria \<ge> 300 then URGENT_TREATMENT else STRONGLY_RECOMMEND)
             else (False, CONTINUE_MONITORING))
      in if fst decided \<and> stage \<ge> 4 then (True, URGENT_TREATMENT) else decided)"

text \<open>The eligible flag and the tier of the source's result, without the rationale.\<close>

definition eligibility_tier :: "patient \<Rightarrow> bool \<times> TreatmentRecommendation" where
  "eligibility_tier p =
     (fst (evaluate_treatment_eligibility p), fst (snd (evaluate_treatment_eligibility p)))"

section \<open>The covered days as the specification words them\<close>

text \<open>
  The calendar days that lie in some window \<open>[refill, refill + days_supply)\<close> and within
  \<open>[start, end]\<close>, as a set: a day under two windows is one element.
\<close>

definition window_days :: "int list \<Rightarrow> int \<Rightarrow> int \<Rightarrow> int \<Rightarrow> int set" where
  "window_days rs ds s e = (\<Union>r\<in>set rs. {r..<r + ds}) \<inter> {s..e}"

section \<open>Example patients\<close>

text \<open>A reading of 29 mg/g followed by one of 31 mg/g: a rise of under 7 percent across the band limit.\<close>

definition band_edge_patient :: patient where
  "band_edge_patient =
     \<lparr>patientId = ''P1'', name = ''Ann'', eGFR = Some 45, ckdStage = Some 3, uACR = Some 31,
      comorbidities = Some [''Diabetes''],
      uacr_history = Some [\<lparr>date = ''2024-01-01'', rvalue = 29\<rparr>,
                           \<lparr>date = ''2024-04-01'', rvalue = 31\<rparr>],
      jardiance = None\<rparr>"

text \<open>The first scenario of the demonstration script: 220, 250, 380 mg/g, poor adherence.\<close>

definition poor_adherence_patient :: patient where
  "poor_adherence_patient =
     \<lparr>patientId = ''TEST001'', name = ''John Anderson'', eGFR = Some (452 / 10),
      ckdStage = Some 3, uACR = Some 380,
      comorbidities = Some [''Diabetes'', ''Hypertension''],
      uacr_history = Some [\<lparr>date = ''2024-07-01'', rvalue = 380\<rparr>,
                           \<lparr>date = ''2024-04-02'', rvalue = 250\<rparr>,
                           \<lparr>date = ''2024-01-03'', rvalue = 220\<rparr>],
      jardiance = Some \<lparr>j_prescribed = Some True,
                        j_medication = Some ''Jardiance (empagliflozin) 10mg'',
                        j_adherence = Some \<lparr>a_MPR = Some 65, a_PDC = Some 58,
                                           a_category = Some ''Medium'',
                                           a_last_30_days = Some 50, a_last_90_days = Some 60\<rparr>,
                        j_refills = Some \<lparr>r_refill_gap_days = Some 45\<rparr>,
                        j_barriers = Some [''Forgetfulness'', ''Cost concerns''],
                        j_interventions = Some []\<rparr>\<rparr>"

text \<open>A first reading of 0 mg/g, then 12 mg/g: the previous value is zero.\<close>

definition zero_previous_patient :: patient where
  "zero_previous_patient =
     \<lparr>patientId = ''P2'', name = ''Ben'', eGFR = Some 60, ckdStage = Some 2, uACR = Some 12,
      comorbidities = Some [],
      uacr_history = Some [\<lparr>date = ''2024-01-01'', rvalue = 0\<rparr>,
                           \<lparr>date = ''2024-04-01'', rvalue = 12\<rparr>],
      jardiance = None\<rparr>"

text \<open>A reading whose date string names month 13: \<^verbatim>\<open>fromisoformat\<close> rejects it.\<close>

definition bad_date_patient :: patient where
  "bad_date_patient =
     \<lparr>patientId = ''P3'', name = ''Cy'', eGFR = Some 60, ckdStage = Some 2, uACR = Some 80,
      comorbidities = Some [],
      uacr_history = Some [\<lparr>date = ''2024-01-01'', rvalue = 50\<rparr>,
                           \<lparr>date = ''2024-13-45'', rvalue = 80\<rparr>],
      jardiance = None\<rparr>"

text \<open>An untreated patient without history, for the rows of the eligibility table.\<close>

definition sample_patient :: "real \<Rightarrow> int \<Rightarrow> real \<Rightarrow> string list \<Rightarrow> patient" where
  "sample_patient e st u cs =
     \<lparr>patientId = ''S'', name = ''Sample'', eGFR = Some e, ckdStage = Some st, uACR = Some u,
      comorbidities = Some cs, uacr_history = None, jardiance = None\<rparr>"

text \<open>
  Readings of 44.4 and 57.72 mg/g, as the doubles nearest to these decimals (the floats
  that the literals \<^verbatim>\<open>44.4\<close> and \<^verbatim>\<open>57.72\<close> denote): the exact rise is a little above
  30 percent, the computed percent change is exactly 30.
\<close>

definition double_44_4 :: real where
  "double_44_4 = 6248744482976563 / 140737488355328"

definition double_57_72 :: real where
  "double_57_72 = 2030841956967383 / 35184372088832"

definition boundary_patient :: patient where
  "boundary_patient =
     \<lparr>patientId = ''P4'', name = ''Dee'', eGFR = Some 60, ckdStage = Some 2,
      uACR = Some double_57_72, comorbidities = Some [],
      uacr_history = Some [\<lparr>date = ''2024-01-01'', rvalue = double_44_4\<rparr>,
                           \<lparr>date = ''2024-04-01'', rvalue = double_57_72\<rparr>],
      jardiance = None\<rparr>"

text \<open>Readings of 100 and 160 mg/g: a rise of 60 percent within band B.\<close>

definition moderate_rise_patient :: patient where
  "moderate_rise_patient =
     \<lparr>patientId = ''P5'', name = ''Eve'', eGFR = Some 60, ckdStage = Some 2, uACR = Some 160,
      comorbidities = Some [],
      uacr_history = Some [\<lparr>date = ''2024-01-01'', rvalue = 100\<rparr>,
                           \<lparr>date = ''2024-04-01'', rvalue = 160\<rparr>],
      jardiance = None\<rparr>"

text \<open>
  The analysis and the alert of \<open>band_edge_patient\<close>, who is untreated. The percent change
  is the double that prints as \<^verbatim>\<open>6.896551724137931\<close>.
\<close>

definition band_edge_analysis :: uACRAnalysis where
  "band_edge_analysis =
     \<lparr>patient_id = ''P1'', patient_name = ''Ann'', current_uacr = 31,
      previous_uacr = 29, percent_change = 3882413471871117 / 562949953421312,
      current_category = MICROALBUMINURIA, previous_category = NORMOALBUMINURIA,
      worsening_level = CATEGORY_PROGRESSION, is_worsening = True,
      date_current = ''2024-04-01'', date_previous = ''2024-01-01'',
      days_between = 91\<rparr>"

definition band_edge_alert :: ClinicalAlert where
  "band_edge_alert =
     \<lparr>severity = ''HIGH'', alert_patient_id = ''P1'', alert_patient_name = ''Ann'',
      alert_type = ''UACR_WORSENING_UNTREATED'',
      uacr_analysis = band_edge_analysis,
      adherence_analysis = Some not_on_treatment,
      treatment_recommendation = Some STRONGLY_RECOMMEND\<rparr>"

text \<open>The analysis, the assessment and the alert of \<open>poor_adherence_patient\<close>, who is on treatment.\<close>

definition poor_adherence_trend :: uACRAnalysis where
  "poor_adherence_trend =
     \<lparr>patient_id = ''TEST001'', patient_name = ''John Anderson'', current_uacr = 380,
      previous_uacr = 250, percent_change = 52,
      current_category = MACROALBUMINURIA, previous_category = MICROALBUMINURIA,
      worsening_level = CATEGORY_PROGRESSION, is_worsening = True,
      date_current = ''2024-07-01'', date_previous = ''2024-04-02'',
      days_between = 90\<rparr>"

definition poor_adherence_assessment :: AdherenceAnalysis where
  "poor_adherence_assessment =
     \<lparr>on_treatment = True, medication = Some ''Jardiance (empagliflozin) 10mg'',
      mpr = Some 65, pdc = Some 58, adherence_category = Some ''Medium'',
      last_30_days = Some 50, last_90_days = Some 60, refill_gap_days = Some 45,
      is_adherent = False, barriers = [''Forgetfulness'', ''Cost concerns''],
      interventions = []\<rparr>"

definition poor_adherence_alert :: ClinicalAlert where
  "poor_adherence_alert =
     \<lparr>severity = ''HIGH'', alert_patient_id = ''TEST001'',
      alert_patient_name = ''John Anderson'',
      alert_type = ''UACR_WORSENING_ON_TREATMENT'',
      uacr_analysis = poor_adherence_trend,
      adherence_analysis = Some poor_adherence_assessment,
      treatment_recommendation = None\<rparr>"

section \<open>Properties of the floating-point arithmetic\<close>

text \<open>The percent changes that the machine computes at the example readings.\<close>

lemmas double_arith = double_percent_def round_double_def round_half_even_def

lemma double_percent_31_29: "double_percent 31 29 = 3882413471871117 / 562949953421312"
  by (simp add: double_arith)

lemma double_percent_380_250: "double_percent 380 250 = 52"
  by (simp add: double_arith)

lemma double_percent_160_100: "double_percent 160 100 = 60"
  by (simp add: double_arith)

lemma round_double_44_4: "round_double (444 / 10) = double_44_4"
  by (simp add: double_arith double_44_4_def)

lemma round_double_57_72: "round_double (5772 / 100) = double_57_72"
  by (simp add: double_arith double_57_72_def)

text \<open>
  At the doubles for 44.4 and 57.72 the computed percent change is 30, the exact one is
  above 30: a test of the computed value against 30 and a test of the exact one disagree.
\<close>

lemma double_percent_boundary: "double_percent double_57_72 double_44_4 = 30"
  by (simp add: double_arith double_57_72_def double_44_4_def)

lemma exact_percent_boundary: "30 < (double_57_72 - double_44_4) / double_44_4 * 100"
  by (simp add: double_57_72_def double_44_4_def)

section \<open>Properties of the Trend Analyzer\<close>

text \<open>The code's categories are the bands of the specification.\<close>

lemma categorize_uacr_band: "categorize_uacr v = spec_band v"
  by (simp add: categorize_uacr_def spec_band_def)

lemma spec_band_limits:
  "(spec_band v = NORMOALBUMINURIA \<longleftrightarrow> v < 30) \<and>
   (spec_band v = MICROALBUMINURIA \<longleftrightarrow> 30 \<le> v \<and> v \<le> 300) \<and>
   (spec_band v = MACROALBUMINURIA \<longleftrightarrow> 300 < v)"
  by (simp add: spec_band_def)

text \<open>The flag of the chain is set exactly when its level is not no-change.\<close>

lemma worsening_of_level:
  "snd (worsening_of c p pc) = (fst (worsening_of c p pc) \<noteq> NO_CHANGE)"
  by (simp add: worsening_of_def Let_def)

text \<open>The chain computes the amended wording.\<close>

lemma worsening_of_amended:
  "worsening_of c p pc =
     (amended_worsening_level c p pc, amended_worsening_level c p pc \<noteq> NO_CHANGE)"
  by (simp add: worsening_of_def amended_worsening_level_def Let_def categorize_uacr_band)

lemma not_no_change_iff:
  "(lv \<noteq> NO_CHANGE) = (lv = MILD \<or> lv = MODERATE \<or> lv = SEVERE \<or> lv = CATEGORY_PROGRESSION)"
  by (cases lv) simp_all

text \<open>The sort keeps the readings and puts their date strings in descending order.\<close>

lemma sorted_desc_length: "length (sorted_desc h) = length h"
  by (simp add: sorted_desc_def)

lemma sorted_desc_set: "set (sorted_desc h) = set h"
  by (simp add: sorted_desc_def)

lemma sorted_desc_sorted: "sorted (rev (map date (sorted_desc h)))"
  by (simp add: sorted_desc_def rev_map)

text \<open>The dates of the example readings, and the order of two and of three readings.\<close>

lemma example_dates:
  "fromisoformat ''2024-01-01'' = Inr 738886"
  "fromisoformat ''2024-04-01'' = Inr 738977"
  "fromisoformat ''2024-07-01'' = Inr 739068"
  "fromisoformat ''2024-04-02'' = Inr 738978"
  "fromisoformat ''2024-13-45'' = Inl ValueError"
  by code_simp+

lemma sorted_desc_two:
  "sorted_desc [\<lparr>date = ''2024-01-01'', rvalue = u\<rparr>, \<lparr>date = ''2024-04-01'', rvalue = v\<rparr>] =
     [\<lparr>date = ''2024-04-01'', rvalue = v\<rparr>, \<lparr>date = ''2024-01-01'', rvalue = u\<rparr>]"
proof -
  have "(''2024-04-01'' \<le> ''2024-01-01'') = False" by code_simp
  then show ?thesis by (simp add: sorted_desc_def)
qed

lemma sorted_desc_bad_date:
  "sorted_desc [\<lparr>date = ''2024-01-01'', rvalue = u\<rparr>, \<lparr>date = ''2024-13-45'', rvalue = v\<rparr>] =
     [\<lparr>date = ''2024-13-45'', rvalue = v\<rparr>, \<lparr>date = ''2024-01-01'', rvalue = u\<rparr>]"
proof -
  have "(''2024-13-45'' \<le> ''2024-01-01'') = False" by code_simp
  then show ?thesis by (simp add: sorted_desc_def)
qed

lemma sorted_desc_three:
  "sorted_desc [\<lparr>date = ''2024-07-01'', rvalue = u\<rparr>, \<lparr>date = ''2024-04-02'', rvalue = v\<rparr>,
                \<lparr>date = ''2024-01-03'', rvalue = w\<rparr>] =
     [\<lparr>date = ''2024-07-01'', rvalue = u\<rparr>, \<lparr>date = ''2024-04-02'', rvalue = v\<rparr>,
      \<lparr>date = ''2024-01-03'', rvalue = w\<rparr>]"
proof -
  have "(''2024-01-03'' \<le> ''2024-04-02'') = True" "(''2024-04-02'' \<le> ''2024-07-01'') = True"
    "(''2024-01-03'' \<le> ''2024-07-01'') = True"
    by code_simp+
  then show ?thesis by (simp add: sorted_desc_def)
qed

text \<open>
  The trend analysis at the example patients, for every rounding of the percent change and
  for the machine's.
\<close>

lemma analyze_band_edge_any:
  "analyze_uacr_change pct band_edge_patient =
     Inr (Some (band_edge_analysis\<lparr>percent_change := pct 31 29\<rparr>))"
  by (simp add: analyze_uacr_change_def band_edge_patient_def band_edge_analysis_def
      sorted_desc_two example_dates Let_def worsening_of_def categorize_uacr_def)

lemma analyze_band_edge_patient:
  "analyze_uacr_change double_percent band_edge_patient = Inr (Some band_edge_analysis)"
  by (simp add: analyze_band_edge_any double_percent_31_29 band_edge_analysis_def)

lemma analyze_poor_adherence_any:
  "analyze_uacr_change pct poor_adherence_patient =
     Inr (Some (poor_adherence_trend\<lparr>percent_change := pct 380 250\<rparr>))"
  by (simp add: analyze_uacr_change_def poor_adherence_patient_def poor_adherence_trend_def
      sorted_desc_three example_dates Let_def worsening_of_def categorize_uacr_def)

lemma analyze_poor_adherence_patient:
  "analyze_uacr_change double_percent poor_adherence_patient = Inr (Some poor_adherence_trend)"
  by (simp add: analyze_poor_adherence_any double_percent_380_250 poor_adherence_trend_def)

lemma analyze_bad_date_patient: "analyze_uacr_change pct bad_date_patient = Inl ValueError"
  by (simp add: analyze_uacr_change_def bad_date_patient_def sorted_desc_bad_date example_dates
      Let_def)

text \<open>A zero previous value is divided by: the analysis raises.\<close>

lemma zero_previous_raises:
  assumes "uacr_history p = Some h" and "2 \<le> length h" and "rvalue (sorted_desc h ! 1) = 0"
  shows "analyze_uacr_change pct p = Inl ZeroDivisionError"
  using assms by (simp add: analyze_uacr_change_def Let_def)

lemma analyze_zero_previous_patient:
  "analyze_uacr_change pct zero_previous_patient = Inl ZeroDivisionError"
  by (rule zero_previous_raises [where h = "[\<lparr>date = ''2024-01-01'', rvalue = 0\<rparr>,
        \<lparr>date = ''2024-04-01'', rvalue = 12\<rparr>]"])
     (simp_all add: zero_previous_patient_def sorted_desc_two)

text \<open>
  C1, as amended. Let \<open>pct\<close> be the computation of the percent change, in the machine's
  arithmetic or any other. For a patient with at least two readings, the first two of the
  date-descending order being the current and the previous one, both dates well-formed and
  the previous value nonzero, the analysis exists; its percent change is the computed one;
  the band of a value is A (normoalbuminuria) exactly below 30, B (microalbuminuria) exactly
  from 30 to 300, both included, C (macroalbuminuria) exactly above 300. Its worsening level
  is: no-change if current \<open>\<le>\<close> previous; otherwise category-progression if the bands of
  the two values differ, whatever the percent change; otherwise no-change if the computed
  percent change is at most 30, severe if it is above 100, moderate if above 50, mild if
  above 30. The analysis is worsening exactly for mild, moderate, severe and
  category-progression.
\<close>

theorem trend_classification:
  assumes "uacr_history p = Some h" and "2 \<le> length h"
    and "rvalue (sorted_desc h ! 1) \<noteq> 0"
    and "fromisoformat (date (sorted_desc h ! 0)) = Inr dc"
    and "fromisoformat (date (sorted_desc h ! 1)) = Inr dp"
  shows "\<exists>a. analyze_uacr_change pct p = Inr (Some a) \<and>
             current_uacr a = rvalue (sorted_desc h ! 0) \<and>
             previous_uacr a = rvalue (sorted_desc h ! 1) \<and>
             percent_change a = pct (current_uacr a) (previous_uacr a) \<and>
             current_category a = spec_band (current_uacr a) \<and>
             previous_category a = spec_band (previous_uacr a) \<and>
             (current_category a = NORMOALBUMINURIA \<longleftrightarrow> current_uacr a < 30) \<and>
             (current_category a = MICROALBUMINURIA \<longleftrightarrow>
                30 \<le> current_uacr a \<and> current_uacr a \<le> 300) \<and>
             (current_category a = MACROALBUMINURIA \<longleftrightarrow> 300 < current_uacr a) \<and>
             (previous_category a = NORMOALBUMINURIA \<longleftrightarrow> previous_uacr a < 30) \<and>
             (previous_category a = MICROALBUMINURIA \<longleftrightarrow>
                30 \<le> previous_uacr a \<and> previous_uacr a \<le> 300) \<and>
             (previous_category a = MACROALBUMINURIA \<longleftrightarrow> 300 < previous_uacr a) \<and>
             worsening_level a =
               amended_worsening_level (current_uacr a) (previous_uacr a) (percent_change a) \<and>
             is_worsening a = (worsening_level a \<in> {MILD, MODERATE, SEVERE, CATEGORY_PROGRESSION})"
  using assms spec_band_limits [of "rvalue (sorted_desc h ! 0)"]
    spec_band_limits [of "rvalue (sorted_desc h ! 1)"]
  by (simp add: analyze_uacr_change_def Let_def worsening_of_amended not_no_change_iff
      categorize_uacr_band)

text \<open>
  The theorem in the machine's arithmetic at two patients. From 100 to 160 mg/g, within
  band B, the computed percent change is 60: a moderate worsening. From 44.4 to 57.72 mg/g,
  within band B, the computed percent change is 30, although the exact rise is above 30
  percent: no change, and not worsening.
\<close>

theorem trend_classification_witness:
  "(\<exists>a. analyze_uacr_change double_percent moderate_rise_patient = Inr (Some a) \<and>
        current_uacr a = 160 \<and> previous_uacr a = 100 \<and> percent_change a = 60 \<and>
        current_category a = MICROALBUMINURIA \<and> previous_category a = MICROALBUMINURIA \<and>
        worsening_level a = MODERATE \<and> is_worsening a) \<and>
   (\<exists>a. analyze_uacr_change double_percent boundary_patient = Inr (Some a) \<and>
        current_uacr a = double_57_72 \<and> previous_uacr a = double_44_4 \<and>
        percent_change a = 30 \<and>
        30 < (current_uacr a - previous_uacr a) / previous_uacr a * 100 \<and>
        worsening_level a = NO_CHANGE \<and> \<not> is_worsening a)"
proof -
  let ?h = "[\<lparr>date = ''2024-01-01'', rvalue = 100\<rparr>, \<lparr>date = ''2024-04-01'', rvalue = 160\<rparr>]"
  let ?s = "[\<lparr>date = ''2024-04-01'', rvalue = 160\<rparr>, \<lparr>date = ''2024-01-01'', rvalue = 100\<rparr>]"
  have h: "uacr_history moderate_rise_patient = Some ?h"
    by (simp add: moderate_rise_patient_def)
  have s: "sorted_desc ?h = ?s"
    by (rule sorted_desc_two)
  have l: "2 \<le> length ?h"
    by simp
  have z: "rvalue (sorted_desc ?h ! 1) \<noteq> 0"
    by (simp add: s)
  have dc: "fromisoformat (date (sorted_desc ?h ! 0)) = Inr 738977"
    by (simp add: s example_dates)
  have dp: "fromisoformat (date (sorted_desc ?h ! 1)) = Inr 738886"
    by (simp add: s example_dates)
  have lv: "amended_worsening_level 160 100 60 = MODERATE"
    by (simp add: amended_worsening_level_def spec_band_def)
  from trend_classification [OF h l z dc dp, of double_percent]
  have m: "\<exists>a. analyze_uacr_change double_percent moderate_rise_patient = Inr (Some a) \<and>
        current_uacr a = 160 \<and> previous_uacr a = 100 \<and> percent_change a = 60 \<and>
        current_category a = MICROALBUMINURIA \<and> previous_category a = MICROALBUMINURIA \<and>
        worsening_level a = MODERATE \<and> is_worsening a"
    by (auto simp add: s lv double_percent_160_100)
  let ?u = double_44_4
  let ?v = double_57_72
  let ?h' = "[\<lparr>date = ''2024-01-01'', rvalue = ?u\<rparr>, \<lparr>date = ''2024-04-01'', rvalue = ?v\<rparr>]"
  let ?s' = "[\<lparr>date = ''2024-04-01'', rvalue = ?v\<rparr>, \<lparr>date = ''2024-01-01'', rvalue = ?u\<rparr>]"
  have h': "uacr_history boundary_patient = Some ?h'"
    by (simp add: boundary_patient_def)
  have s': "sorted_desc ?h' = ?s'"
    by (rule sorted_desc_two)
  have l': "2 \<le> length ?h'"
    by simp
  have z': "rvalue (sorted_desc ?h' ! 1) \<noteq> 0"
  proof -
    have "double_44_4 \<noteq> 0" by (simp add: double_44_4_def)
    then show ?thesis by (simp add: s')
  qed
  have dc': "fromisoformat (date (sorted_desc ?h' ! 0)) = Inr 738977"
    by (simp add: s' example_dates)
  have dp': "fromisoformat (date (sorted_desc ?h' ! 1)) = Inr 738886"
    by (simp add: s' example_dates)
  have lv': "amended_worsening_level ?v ?u 30 = NO_CHANGE"
    by (simp add: amended_worsening_level_def spec_band_def double_57_72_def double_44_4_def)
  from trend_classification [OF h' l' z' dc' dp', of double_percent]
  obtain a where a: "analyze_uacr_change double_percent boundary_patient = Inr (Some a)"
    and cu: "current_uacr a = rvalue (sorted_desc ?h' ! 0)"
    and pu: "previous_uacr a = rvalue (sorted_desc ?h' ! 1)"
    and pc: "percent_change a = double_percent (current_uacr a) (previous_uacr a)"
    and wl: "worsening_level a =
               amended_worsening_level (current_uacr a) (previous_uacr a) (percent_change a)"
    and iw: "is_worsening a = (worsening_level a \<in> {MILD, MODERATE, SEVERE, CATEGORY_PROGRESSION})"
    by blast
  from cu have cu': "current_uacr a = ?v" by (simp add: s')
  from pu have pu': "previous_uacr a = ?u" by (simp add: s')
  from pc have pc': "percent_change a = 30" by (simp add: cu' pu' double_percent_boundary)
  from wl have wl': "worsening_level a = NO_CHANGE" by (simp add: cu' pu' pc' lv')
  from iw have iw': "\<not> is_worsening a" by (simp add: wl')
  have ex: "30 < (current_uacr a - previous_uacr a) / previous_uacr a * 100"
    unfolding cu' pu' by (rule exact_percent_boundary)
  from a cu' pu' pc' ex wl' iw'
  have b: "\<exists>a. analyze_uacr_change double_percent boundary_patient = Inr (Some a) \<and>
        current_uacr a = ?v \<and> previous_uacr a = ?u \<and> percent_change a = 30 \<and>
        30 < (current_uacr a - previous_uacr a) / previous_uacr a * 100 \<and>
        worsening_level a = NO_CHANGE \<and> \<not> is_worsening a"
    by blast
  from m b show ?thesis ..
qed

text \<open>
  C1 as the specification words it fails on the code: from 29 to 31 mg/g the value rises
  by less than 30 percent, computed or exact, which the no-change clause covers, and the
  code reports a category progression, with worsening set.
\<close>

theorem small_rise_across_band_counterexample:
  "analyze_uacr_change double_percent band_edge_patient =
     Inr (Some \<lparr>patient_id = ''P1'', patient_name = ''Ann'', current_uacr = 31,
                previous_uacr = 29, percent_change = 3882413471871117 / 562949953421312,
                current_category = MICROALBUMINURIA, previous_category = NORMOALBUMINURIA,
                worsening_level = CATEGORY_PROGRESSION, is_worsening = True,
                date_current = ''2024-04-01'', date_previous = ''2024-01-01'',
                days_between = 91\<rparr>) \<and>
   (29::real) < 31 \<and> (3882413471871117 / 562949953421312 :: real) \<le> 30 \<and>
   ((31::real) - 29) / 29 * 100 \<le> 30 \<and>
   claimed_worsening_level 31 29 (3882413471871117 / 562949953421312) = NO_CHANGE"
  by (simp add: analyze_band_edge_any double_percent_31_29 band_edge_analysis_def
      claimed_worsening_level_def)

section \<open>Properties of the Eligibility Evaluator\<close>

lemma eligibility_tier_spec:
  "eligibility_tier p =
     spec_eligibility (get_or (eGFR p) 0) (get_or (ckdStage p) 0) (get_or (uACR p) 0)
       (''Diabetes'' \<in> set (get_or (comorbidities p) []))"
  by (simp add: eligibility_tier_def evaluate_treatment_eligibility_def spec_eligibility_def Let_def)

text \<open>
  C2. The eligible flag and the tier are those of the specified decision order, on the
  inputs as the code reads them (an absent key counts as 0, or as no comorbidity). The
  sample rows: a filtration estimate of 15 is ineligible with continue-monitoring whatever
  the rest; with a filtration estimate of at least 20, diabetic stage 3 at 320 mg/g is
  eligible and urgent, diabetic stage 2 at 50 mg/g is eligible and strongly recommended,
  non-diabetic stage 3 at 150 mg/g is ineligible, non-diabetic stage 3 at 350 mg/g is
  eligible and urgent.
\<close>

theorem eligibility_decision_order:
  "eligibility_tier p =
     spec_eligibility (get_or (eGFR p) 0) (get_or (ckdStage p) 0) (get_or (uACR p) 0)
       (''Diabetes'' \<in> set (get_or (comorbidities p) []))
   \<and> (eGFR p = Some 15 \<longrightarrow> eligibility_tier p = (False, CONTINUE_MONITORING))
   \<and> (get_or (eGFR p) 0 \<ge> 20 \<and> ''Diabetes'' \<in> set (get_or (comorbidities p) []) \<and>
        ckdStage p = Some 3 \<and> uACR p = Some 320 \<longrightarrow> eligibility_tier p = (True, URGENT_TREATMENT))
   \<and> (get_or (eGFR p) 0 \<ge> 20 \<and> ''Diabetes'' \<in> set (get_or (comorbidities p) []) \<and>
        ckdStage p = Some 2 \<and> uACR p = Some 50 \<longrightarrow> eligibility_tier p = (True, STRONGLY_RECOMMEND))
   \<and> (get_or (eGFR p) 0 \<ge> 20 \<and> ''Diabetes'' \<notin> set (get_or (comorbidities p) []) \<and>
        ckdStage p = Some 3 \<and> uACR p = Some 150 \<longrightarrow> fst (eligibility_tier p) = False)
   \<and> (get_or (eGFR p) 0 \<ge> 20 \<and> ''Diabetes'' \<notin> set (get_or (comorbidities p) []) \<and>
        ckdStage p = Some 3 \<and> uACR p = Some 350 \<longrightarrow> eligibility_tier p = (True, URGENT_TREATMENT))"
  by (auto simp add: eligibility_tier_spec spec_eligibility_def get_or_def split: option.splits)

text \<open>The five sample rows, each at a patient that satisfies the row's conditions.\<close>

theorem eligibility_decision_order_witness:
  "eligibility_tier (sample_patient 15 5 900 [''Diabetes'']) = (False, CONTINUE_MONITORING) \<and>
   eligibility_tier (sample_patient 48 3 320 [''Diabetes'', ''Hypertension'']) = (True, URGENT_TREATMENT) \<and>
   eligibility_tier (sample_patient 60 2 50 [''Diabetes'']) = (True, STRONGLY_RECOMMEND) \<and>
   fst (eligibility_tier (sample_patient 40 3 150 [''Hypertension''])) = False \<and>
   eligibility_tier (sample_patient 40 3 350 []) = (True, URGENT_TREATMENT)"
  using eligibility_decision_order [of "sample_patient 15 5 900 [''Diabetes'']"]
    eligibility_decision_order [of "sample_patient 48 3 320 [''Diabetes'', ''Hypertension'']"]
    eligibility_decision_order [of "sample_patient 60 2 50 [''Diabetes'']"]
    eligibility_decision_order [of "sample_patient 40 3 150 [''Hypertension'']"]
    eligibility_decision_order [of "sample_patient 40 3 350 []"]
  by (simp add: sample_patient_def get_or_def spec_eligibility_def)

text \<open>
  C9. Replacing the comorbidity list by one that differs from it only in the presence of
  \<^verbatim>\<open>Hypertension\<close> and \<^verbatim>\<open>Heart Failure\<close> changes neither the eligible flag nor the tier.
\<close>

theorem comorbidities_do_not_change_tier:
  assumes "set cs' - {''Hypertension'', ''Heart Failure''} =
           set (get_or (comorbidities p) []) - {''Hypertension'', ''Heart Failure''}"
  shows "eligibility_tier (p\<lparr>comorbidities := Some cs'\<rparr>) = eligibility_tier p"
proof -
  have "(''Diabetes'' \<in> set cs') = (''Diabetes'' \<in> set cs' - {''Hypertension'', ''Heart Failure''})"
    by simp
  also have "\<dots> = (''Diabetes'' \<in> set (get_or (comorbidities p) []) - {''Hypertension'', ''Heart Failure''})"
    using assms by simp
  also have "\<dots> = (''Diabetes'' \<in> set (get_or (comorbidities p) []))"
    by simp
  finally show ?thesis
    by (simp add: eligibility_tier_spec get_or_def)
qed

text \<open>
  A diabetic stage 2 patient at 50 mg/g, with and without the two comorbidities: the tier
  stays, the rationale gains two reasons.
\<close>

theorem comorbidities_do_not_change_tier_witness:
  "eligibility_tier ((sample_patient 60 2 50 [''Diabetes''])
      \<lparr>comorbidities := Some [''Hypertension'', ''Diabetes'', ''Heart Failure'']\<rparr>) =
   eligibility_tier (sample_patient 60 2 50 [''Diabetes'']) \<and>
   snd (snd (evaluate_treatment_eligibility ((sample_patient 60 2 50 [''Diabetes''])
      \<lparr>comorbidities := Some [''Hypertension'', ''Diabetes'', ''Heart Failure'']\<rparr>))) =
     [Diabetic_CKD_stage 2, Microalbuminuria 50, Hypertension_present, Heart_failure_present] \<and>
   snd (snd (evaluate_treatment_eligibility (sample_patient 60 2 50 [''Diabetes'']))) =
     [Diabetic_CKD_stage 2, Microalbuminuria 50]"
proof -
  have h: "set [''Hypertension'', ''Diabetes'', ''Heart Failure''] - {''Hypertension'', ''Heart Failure''} =
           set (get_or (comorbidities (sample_patient 60 2 50 [''Diabetes''])) []) -
             {''Hypertension'', ''Heart Failure''}"
    by (auto simp add: sample_patient_def get_or_def)
  have r: "snd (snd (evaluate_treatment_eligibility ((sample_patient 60 2 50 [''Diabetes''])
      \<lparr>comorbidities := Some [''Hypertension'', ''Diabetes'', ''Heart Failure'']\<rparr>))) =
     [Diabetic_CKD_stage 2, Microalbuminuria 50, Hypertension_present, Heart_failure_present]"
    by (simp add: evaluate_treatment_eligibility_def sample_patient_def get_or_def)
  have r': "snd (snd (evaluate_treatment_eligibility (sample_patient 60 2 50 [''Diabetes'']))) =
     [Diabetic_CKD_stage 2, Microalbuminuria 50]"
    by (simp add: evaluate_treatment_eligibility_def sample_patient_def get_or_def)
  from comorbidities_do_not_change_tier [OF h] r r' show ?thesis by simp
qed

section \<open>Properties of the Adherence Calculator\<close>

lemma analyze_adherence_not_prescribed:
  "\<not> get_or (Option.bind (jardiance p) j_prescribed) False \<Longrightarrow>
   analyze_adherence p = not_on_treatment"
  by (cases "jardiance p") (simp_all add: analyze_adherence_def)

lemma analyze_adherence_prescribed:
  "get_or (Option.bind (jardiance p) j_prescribed) False \<Longrightarrow>
   on_treatment (analyze_adherence p) \<and>
   mpr (analyze_adherence p) =
     Some (get_or (Option.bind (Option.bind (jardiance p) j_adherence) a_MPR) 0) \<and>
   pdc (analyze_adherence p) =
     Some (get_or (Option.bind (Option.bind (jardiance p) j_adherence) a_PDC) 0) \<and>
   refill_gap_days (analyze_adherence p) =
     Some (get_or (Option.bind (Option.bind (jardiance p) j_refills) r_refill_gap_days) 0) \<and>
   is_adherent (analyze_adherence p) =
     (get_or (Option.bind (Option.bind (jardiance p) j_adherence) a_MPR) 0 \<ge> 80 \<and>
      get_or (Option.bind (Option.bind (jardiance p) j_refills) r_refill_gap_days) 0 \<le> 7)"
  by (cases "jardiance p") (simp_all add: analyze_adherence_def Let_def get_or_def [of None])

text \<open>
  C7. The adherent flag holds exactly when the medication is prescribed, the recorded MPR
  is at least 80 and the recorded refill gap is at most 7 days (an absent figure counts
  as 0). A prescribed record is on treatment and carries these two figures; a record that
  is absent or not prescribed gives the assessment that is off treatment, with every metric
  empty, no barriers, no interventions, and not adherent.
\<close>

theorem adherent_iff:
  "(is_adherent (analyze_adherence p) \<longleftrightarrow>
      get_or (Option.bind (jardiance p) j_prescribed) False \<and>
      get_or (Option.bind (Option.bind (jardiance p) j_adherence) a_MPR) 0 \<ge> 80 \<and>
      get_or (Option.bind (Option.bind (jardiance p) j_refills) r_refill_gap_days) 0 \<le> 7)
   \<and> (get_or (Option.bind (jardiance p) j_prescribed) False \<longrightarrow>
        on_treatment (analyze_adherence p) \<and>
        mpr (analyze_adherence p) =
          Some (get_or (Option.bind (Option.bind (jardiance p) j_adherence) a_MPR) 0) \<and>
        refill_gap_days (analyze_adherence p) =
          Some (get_or (Option.bind (Option.bind (jardiance p) j_refills) r_refill_gap_days) 0))
   \<and> (\<not> get_or (Option.bind (jardiance p) j_prescribed) False \<longrightarrow>
        analyze_adherence p =
          \<lparr>on_treatment = False, medication = None, mpr = None, pdc = None,
           adherence_category = None, last_30_days = None, last_90_days = None,
           refill_gap_days = None, is_adherent = False, barriers = [], interventions = []\<rparr>)"
proof (cases "get_or (Option.bind (jardiance p) j_prescribed) False")
  case True
  with analyze_adherence_prescribed [OF True] show ?thesis by simp
next
  case False
  with analyze_adherence_not_prescribed [OF False] show ?thesis
    by (simp add: not_on_treatment_def)
qed

text \<open>
  A prescribed record with MPR 65 and a gap of 45 days is on treatment and not adherent; a
  patient without a medication record gets the off-treatment assessment.
\<close>

theorem adherent_iff_witness:
  "\<not> is_adherent (analyze_adherence poor_adherence_patient) \<and>
   on_treatment (analyze_adherence poor_adherence_patient) \<and>
   mpr (analyze_adherence poor_adherence_patient) = Some 65 \<and>
   refill_gap_days (analyze_adherence poor_adherence_patient) = Some 45 \<and>
   analyze_adherence band_edge_patient =
     \<lparr>on_treatment = False, medication = None, mpr = None, pdc = None,
      adherence_category = None, last_30_days = None, last_90_days = None,
      refill_gap_days = None, is_adherent = False, barriers = [], interventions = []\<rparr>"
  using adherent_iff [of poor_adherence_patient] adherent_iff [of band_edge_patient]
  by (simp add: poor_adherence_patient_def band_edge_patient_def get_or_def)

section \<open>Properties of the adherence metrics\<close>

lemma cover_fold:
  "fold (\<lambda>i acc. let day = r + int i in if s \<le> day \<and> day \<le> e then insert day acc else acc)
        [0..<n] acc =
   acc \<union> {d. r \<le> d \<and> d < r + int n \<and> s \<le> d \<and> d \<le> e}"
proof (induction n)
  case 0
  show ?case by auto
next
  case (Suc n)
  have "{d. r \<le> d \<and> d < r + int (Suc n) \<and> s \<le> d \<and> d \<le> e} =
        {d. r \<le> d \<and> d < r + int n \<and> s \<le> d \<and> d \<le> e} \<union>
        (if s \<le> r + int n \<and> r + int n \<le> e then {r + int n} else {})"
    by auto
  with Suc show ?case by (auto simp add: Let_def)
qed

lemma cover_refill_set:
  "cover_refill r ds s e acc = acc \<union> {d. r \<le> d \<and> d < r + ds \<and> s \<le> d \<and> d \<le> e}"
proof -
  have "{d. r \<le> d \<and> d < r + int (nat ds) \<and> s \<le> d \<and> d \<le> e} =
        {d. r \<le> d \<and> d < r + ds \<and> s \<le> d \<and> d \<le> e}"
    by auto
  then show ?thesis
    by (simp add: cover_refill_def cover_fold)
qed

lemma cover_refills_set:
  "map fromisoformat rds = map Inr rs \<Longrightarrow>
   cover_refills rds ds s e acc = Inr (acc \<union> window_days rs ds s e)"
proof (induction rds arbitrary: rs acc)
  case Nil
  then show ?case by (simp add: window_days_def)
next
  case (Cons x rds)
  then obtain r rs' where rs: "rs = r # rs'" and x: "fromisoformat x = Inr r"
    and rest: "map fromisoformat rds = map Inr rs'"
    by (cases rs) auto
  have "window_days (r # rs') ds s e =
        {d. r \<le> d \<and> d < r + ds \<and> s \<le> d \<and> d \<le> e} \<union> window_days rs' ds s e"
    by (auto simp add: window_days_def)
  with Cons.IH [OF rest] x rs show ?case
    by (simp add: cover_refill_set Un_assoc)
qed

lemma cover_refills_parsed:
  "cover_refills rds ds s e acc = Inr c \<Longrightarrow> \<exists>rs. map fromisoformat rds = map Inr rs"
proof (induction rds arbitrary: acc)
  case Nil
  then show ?case by simp
next
  case (Cons x rds)
  then obtain r where x: "fromisoformat x = Inr r"
    by (cases "fromisoformat x") auto
  with Cons.prems have "cover_refills rds ds s e (cover_refill r ds s e acc) = Inr c"
    by simp
  from Cons.IH [OF this] obtain rs where "map fromisoformat rds = map Inr rs" ..
  with x have "map fromisoformat (x # rds) = map Inr (r # rs)" by simp
  then show ?case ..
qed

lemma window_days_iff:
  "d \<in> window_days rs ds s e \<longleftrightarrow> (\<exists>r\<in>set rs. r \<le> d \<and> d < r + ds) \<and> s \<le> d \<and> d \<le> e"
  by (auto simp add: window_days_def)

lemma window_days_finite: "finite (window_days rs ds s e)"
proof -
  have "window_days rs ds s e \<subseteq> {s..e}" by (auto simp add: window_days_def)
  then show ?thesis by (rule finite_subset) simp
qed

lemma window_days_mono: "set rs \<subseteq> set rs' \<Longrightarrow> window_days rs ds s e \<subseteq> window_days rs' ds s e"
  by (auto simp add: window_days_def)

lemma calculate_pdc_value:
  assumes "fromisoformat start_date = Inr s" and "fromisoformat end_date = Inr e"
    and "map fromisoformat refill_dates = map Inr rs"
    and "refill_dates \<noteq> []" and "0 < e - s"
  shows "calculate_pdc refill_dates ds start_date end_date =
           Inr (min (real (card (window_days rs ds s e)) / real_of_int (e - s) * 100) 100)"
  using assms by (simp add: calculate_pdc_def Let_def cover_refills_set)

text \<open>
  C4. The coverage proportion is 0 for an empty refill list, and 0 when the period from
  start to end has no days or a negative number of them. Otherwise, with every refill date
  well-formed, it is the number of distinct covered days over the days of the period, times
  100, capped at 100.
\<close>

theorem pdc_counts_distinct_days:
  "calculate_pdc [] ds start_date end_date = Inr 0 \<and>
   (fromisoformat start_date = Inr s \<and> fromisoformat end_date = Inr e \<and> e - s \<le> 0 \<longrightarrow>
      calculate_pdc refill_dates ds start_date end_date = Inr 0) \<and>
   (fromisoformat start_date = Inr s \<and> fromisoformat end_date = Inr e \<and> 0 < e - s \<and>
    refill_dates \<noteq> [] \<and> map fromisoformat refill_dates = map Inr rs \<longrightarrow>
      calculate_pdc refill_dates ds start_date end_date =
        Inr (min 100 (real (card (window_days rs ds s e)) / real_of_int (e - s) * 100)))"
proof (intro conjI impI)
  show "calculate_pdc [] ds start_date end_date = Inr 0"
    by (simp add: calculate_pdc_def)
next
  assume "fromisoformat start_date = Inr s \<and> fromisoformat end_date = Inr e \<and> e - s \<le> 0"
  then show "calculate_pdc refill_dates ds start_date end_date = Inr 0"
    by (simp add: calculate_pdc_def)
next
  assume "fromisoformat start_date = Inr s \<and> fromisoformat end_date = Inr e \<and> 0 < e - s \<and>
    refill_dates \<noteq> [] \<and> map fromisoformat refill_dates = map Inr rs"
  then show "calculate_pdc refill_dates ds start_date end_date =
        Inr (min 100 (real (card (window_days rs ds s e)) / real_of_int (e - s) * 100))"
    by (simp add: calculate_pdc_value min.commute)
qed

text \<open>
  Two fills of 3 days on 1 and 2 January in a period of 10 days cover 4 distinct days, not
  6: the proportion is 40. With the end of the period before its start it is 0.
\<close>

theorem pdc_counts_distinct_days_witness:
  "calculate_pdc [''2024-01-01'', ''2024-01-02''] 3 ''2024-01-01'' ''2024-01-11'' = Inr 40 \<and>
   calculate_pdc [''2024-01-01'', ''2024-01-02''] 3 ''2024-01-11'' ''2024-01-01'' = Inr 0"
proof -
  have s: "fromisoformat ''2024-01-01'' = Inr 738886" by code_simp
  have e: "fromisoformat ''2024-01-11'' = Inr 738896" by code_simp
  have r: "map fromisoformat [''2024-01-01'', ''2024-01-02''] = map Inr [738886, 738887]"
    by code_simp
  have w: "window_days [738886, 738887] 3 738886 738896 = {738886, 738887, 738888, 738889}"
    by (auto simp add: window_days_def)
  from pdc_counts_distinct_days [of 3 "''2024-01-01''" "''2024-01-11''" 738886 738896
      "[''2024-01-01'', ''2024-01-02'']" "[738886, 738887]"] s e r
  have "calculate_pdc [''2024-01-01'', ''2024-01-02''] 3 ''2024-01-01'' ''2024-01-11'' = Inr 40"
    by (simp add: w)
  moreover
  from pdc_counts_distinct_days [of 3 "''2024-01-11''" "''2024-01-01''" 738896 738886
      "[''2024-01-01'', ''2024-01-02'']" "[738886, 738887]"] s e
  have "calculate_pdc [''2024-01-01'', ''2024-01-02''] 3 ''2024-01-11'' ''2024-01-01'' = Inr 0"
    by simp
  ultimately show ?thesis by simp
qed

text \<open>Bounds and monotonicity of the two metrics, where they return.\<close>

lemma calculate_pdc_range:
  assumes "calculate_pdc refill_dates ds start_date end_date = Inr v"
  shows "0 \<le> v \<and> v \<le> 100"
  using assms
  by (auto simp add: calculate_pdc_def Let_def split: if_splits sum.splits)

lemma calculate_mpr_range:
  assumes "0 \<le> days_supply" and "0 < period_days"
  shows "\<exists>m. calculate_mpr refill_dates days_supply period_days = Inr m \<and> 0 \<le> m \<and> m \<le> 100"
  using assms by (simp add: calculate_mpr_def Let_def)

lemma calculate_mpr_mono:
  assumes "0 \<le> days_supply" and "0 < period_days"
    and "calculate_mpr (xs @ ys) days_supply period_days = Inr m"
    and "calculate_mpr (xs @ r # ys) days_supply period_days = Inr m'"
  shows "m \<le> m'"
proof -
  have "real_of_int (int (length (xs @ ys)) * days_supply) / real_of_int period_days * 100
        \<le> real_of_int (int (length (xs @ r # ys)) * days_supply) / real_of_int period_days * 100"
    using assms(1,2) by (simp add: divide_right_mono mult_right_mono)
  moreover have "0 \<le> real_of_int (int (length (xs @ r # ys)) * days_supply) / real_of_int period_days * 100"
    using assms(1,2) by simp
  ultimately show ?thesis
    using assms(2,3,4) by (auto simp add: calculate_mpr_def Let_def split: if_splits)
qed

lemma calculate_pdc_mono:
  assumes "calculate_pdc (xs @ ys) ds start_date end_date = Inr v"
    and "calculate_pdc (xs @ r # ys) ds start_date end_date = Inr v'"
  shows "v \<le> v'"
proof (cases "xs @ ys = []")
  case True
  with assms(1) have "v = 0" by (simp add: calculate_pdc_def)
  with calculate_pdc_range [OF assms(2)] show ?thesis by simp
next
  case False
  from assms(2) obtain s e where s: "fromisoformat start_date = Inr s"
    and e: "fromisoformat end_date = Inr e"
    by (auto simp add: calculate_pdc_def split: sum.splits)
  show ?thesis
  proof (cases "0 < e - s")
    case neg: False
    with assms s e show ?thesis
      by (auto simp add: calculate_pdc_def Let_def split: if_splits)
  next
    case pos: True
    from assms(2) s e pos obtain c where "cover_refills (xs @ r # ys) ds s e {} = Inr c"
      by (auto simp add: calculate_pdc_def Let_def split: sum.splits)
    from cover_refills_parsed [OF this] obtain rs' where
      rs': "map fromisoformat (xs @ r # ys) = map Inr rs'" ..
    from assms(1) s e pos False obtain c0 where "cover_refills (xs @ ys) ds s e {} = Inr c0"
      by (auto simp add: calculate_pdc_def Let_def split: sum.splits if_splits)
    from cover_refills_parsed [OF this] obtain rs where
      rs: "map fromisoformat (xs @ ys) = map Inr rs" ..
    have "Inr ` set rs \<subseteq> (Inr ` set rs' :: (error + int) set)"
    proof -
      have "set (map fromisoformat (xs @ ys)) \<subseteq> set (map fromisoformat (xs @ r # ys))" by auto
      then show ?thesis unfolding rs rs' by simp
    qed
    then have sub: "set rs \<subseteq> set rs'" by auto
    have le: "card (window_days rs ds s e) \<le> card (window_days rs' ds s e)"
      by (rule card_mono [OF window_days_finite window_days_mono [OF sub]])
    have v: "v = min (real (card (window_days rs ds s e)) / real_of_int (e - s) * 100) 100"
      using calculate_pdc_value [OF s e rs False pos] assms(1) by simp
    have v': "v' = min (real (card (window_days rs' ds s e)) / real_of_int (e - s) * 100) 100"
      using calculate_pdc_value [OF s e rs' _ pos] assms(2) by simp
    from le pos have "real (card (window_days rs ds s e)) / real_of_int (e - s) * 100
        \<le> real (card (window_days rs' ds s e)) / real_of_int (e - s) * 100"
      by (simp add: divide_right_mono)
    with v v' show ?thesis by (simp add: min.coboundedI1)
  qed
qed

text \<open>
  C8 at an observation period of 0 days with one refill: the possession ratio divides by the
  period and raises, where the coverage proportion returns 0 for such a period. For every
  positive period the bounds and the monotonicity hold (\<open>calculate_mpr_range\<close>,
  \<open>calculate_pdc_range\<close>, \<open>calculate_mpr_mono\<close>, \<open>calculate_pdc_mono\<close>).
\<close>

theorem mpr_zero_period_raises:
  "calculate_mpr [''2024-01-01''] 30 0 = Inl ZeroDivisionError \<and>
   calculate_pdc [''2024-01-01''] 30 ''2024-01-01'' ''2024-01-01'' = Inr 0"
  by code_simp

section \<open>Properties of the Alert Composer\<close>

lemma text_formats_pipeline: "on_treatment (analyze_adherence p) \<Longrightarrow> text_formats (analyze_adherence p)"
  by (cases "get_or (Option.bind (jardiance p) j_prescribed) False")
     (auto simp add: text_formats_def not_on_treatment_def
         dest: analyze_adherence_prescribed analyze_adherence_not_prescribed)

lemma generate_pipeline:
  "\<exists>al. generate_clinical_alert p a (Some (analyze_adherence p)) = Inr al"
  using text_formats_pipeline [of p]
  by (simp add: generate_clinical_alert_def Let_def)

text \<open>The assessments and the alerts of the two example patients that are worsening.\<close>

lemma adherence_band_edge_patient: "analyze_adherence band_edge_patient = not_on_treatment"
  by (simp add: analyze_adherence_def band_edge_patient_def)

lemma adherence_poor_adherence_patient:
  "analyze_adherence poor_adherence_patient = poor_adherence_assessment"
  by (simp add: analyze_adherence_def poor_adherence_patient_def poor_adherence_assessment_def
      get_or_def Let_def)

lemma generate_band_edge_alert:
  "generate_clinical_alert band_edge_patient band_edge_analysis (Some not_on_treatment) =
     Inr band_edge_alert"
  by code_simp

lemma generate_poor_adherence_alert:
  "generate_clinical_alert poor_adherence_patient poor_adherence_trend
     (Some poor_adherence_assessment) = Inr poor_adherence_alert"
  by code_simp

text \<open>
  C10. An alert that the composer returns carries a recommendation tier exactly when the
  adherence assessment is absent or off treatment, which is exactly when its type is
  \<^verbatim>\<open>UACR_WORSENING_UNTREATED\<close>; an on-treatment alert carries none.
\<close>

theorem recommendation_iff_untreated:
  assumes "generate_clinical_alert p an ad = Inr al"
  shows "(treatment_recommendation al \<noteq> None \<longleftrightarrow>
            ad = None \<or> (\<exists>a. ad = Some a \<and> \<not> on_treatment a)) \<and>
         (treatment_recommendation al \<noteq> None \<longleftrightarrow> alert_type al = ''UACR_WORSENING_UNTREATED'') \<and>
         (treatment_recommendation al = None \<longleftrightarrow> alert_type al = ''UACR_WORSENING_ON_TREATMENT'') \<and>
         ((\<exists>a. ad = Some a \<and> on_treatment a) \<longrightarrow> treatment_recommendation al = None)"
  using assms
  by (cases ad) (auto simp add: generate_clinical_alert_def Let_def split: if_splits)

text \<open>
  The alert of the untreated example patient carries a tier; the alert of the treated one
  carries none.
\<close>

theorem recommendation_iff_untreated_witness:
  "generate_clinical_alert band_edge_patient band_edge_analysis (Some not_on_treatment) =
     Inr band_edge_alert \<and>
   treatment_recommendation band_edge_alert \<noteq> None \<and>
   generate_clinical_alert poor_adherence_patient poor_adherence_trend
     (Some poor_adherence_assessment) = Inr poor_adherence_alert \<and>
   treatment_recommendation poor_adherence_alert = None"
proof -
  note u = generate_band_edge_alert and t = generate_poor_adherence_alert
  have n: "\<not> on_treatment not_on_treatment"
    by (simp add: not_on_treatment_def)
  have o: "on_treatment poor_adherence_assessment"
    by (simp add: poor_adherence_assessment_def)
  from recommendation_iff_untreated [OF u] n
  have "treatment_recommendation band_edge_alert \<noteq> None"
    by blast
  moreover from recommendation_iff_untreated [OF t] o
  have "treatment_recommendation poor_adherence_alert = None"
    by blast
  ultimately show ?thesis
    using u t by simp
qed

lemma generate_severity:
  "generate_clinical_alert p an ad = Inr al \<Longrightarrow>
   uacr_analysis al = an \<and>
   severity al = (case worsening_level an of SEVERE \<Rightarrow> ''CRITICAL'' | CATEGORY_PROGRESSION \<Rightarrow> ''HIGH''
     | MODERATE \<Rightarrow> ''HIGH'' | MILD \<Rightarrow> ''MODERATE'' | NO_CHANGE \<Rightarrow> ''LOW'')"
  by (cases "worsening_level an") (auto simp add: generate_clinical_alert_def Let_def split: if_splits)

lemma analyze_worsening_level:
  "analyze_uacr_change pct p = Inr (Some a) \<Longrightarrow>
   is_worsening a = (worsening_level a \<noteq> NO_CHANGE)"
  by (auto simp add: analyze_uacr_change_def Let_def worsening_of_level
      split: option.splits if_splits sum.splits)

section \<open>Properties of the Batch Processor\<close>

lemma process_patient_cases:
  "process_patient pct p alerts =
     (case analyze_uacr_change pct p of
        Inl e \<Rightarrow> Inl e
      | Inr None \<Rightarrow> Inr (None, alerts)
      | Inr (Some a) \<Rightarrow>
          if is_worsening a
          then (case generate_clinical_alert p a (Some (analyze_adherence p)) of
                  Inl e \<Rightarrow> Inl e | Inr al \<Rightarrow> Inr (Some al, alerts @ [al]))
          else Inr (None, alerts))"
  by (simp add: process_patient_def split: sum.splits option.splits)

text \<open>Processing the example patients, in the machine's arithmetic.\<close>

lemma process_band_edge_patient:
  "process_patient double_percent band_edge_patient alerts =
     Inr (Some band_edge_alert, alerts @ [band_edge_alert])"
proof -
  have "is_worsening band_edge_analysis"
    by (simp add: band_edge_analysis_def)
  then show ?thesis
    by (simp add: process_patient_cases analyze_band_edge_patient adherence_band_edge_patient
        generate_band_edge_alert)
qed

lemma process_poor_adherence_patient:
  "process_patient double_percent poor_adherence_patient alerts =
     Inr (Some poor_adherence_alert, alerts @ [poor_adherence_alert])"
proof -
  have "is_worsening poor_adherence_trend"
    by (simp add: poor_adherence_trend_def)
  then show ?thesis
    by (simp add: process_patient_cases analyze_poor_adherence_patient
        adherence_poor_adherence_patient generate_poor_adherence_alert)
qed

text \<open>
  C5. Whatever the computation \<open>pct\<close> of the percent change, processing a patient returns
  an alert exactly when the trend analysis returns a result that is worsening. The alert
  returned carries that analysis, is appended to the collected alerts, and has severity
  CRITICAL for severe, HIGH for category-progression and for moderate, MODERATE for mild;
  its level is never no-change.
\<close>

theorem alert_iff_worsening:
  "((\<exists>al alerts'. process_patient pct p alerts = Inr (Some al, alerts')) \<longleftrightarrow>
      (\<exists>a. analyze_uacr_change pct p = Inr (Some a) \<and> is_worsening a)) \<and>
   (\<forall>al alerts'. process_patient pct p alerts = Inr (Some al, alerts') \<longrightarrow>
      analyze_uacr_change pct p = Inr (Some (uacr_analysis al)) \<and>
      alerts' = alerts @ [al] \<and>
      (worsening_level (uacr_analysis al) = SEVERE \<longrightarrow> severity al = ''CRITICAL'') \<and>
      (worsening_level (uacr_analysis al) = CATEGORY_PROGRESSION \<longrightarrow> severity al = ''HIGH'') \<and>
      (worsening_level (uacr_analysis al) = MODERATE \<longrightarrow> severity al = ''HIGH'') \<and>
      (worsening_level (uacr_analysis al) = MILD \<longrightarrow> severity al = ''MODERATE'') \<and>
      worsening_level (uacr_analysis al) \<noteq> NO_CHANGE)"
proof (cases "analyze_uacr_change pct p")
  case (Inl e)
  then show ?thesis by (simp add: process_patient_cases)
next
  case (Inr r)
  show ?thesis
  proof (cases r)
    case None
    with Inr show ?thesis by (simp add: process_patient_cases)
  next
    case (Some a)
    obtain al where g: "generate_clinical_alert p a (Some (analyze_adherence p)) = Inr al"
      using generate_pipeline by blast
    from Inr Some have w: "is_worsening a = (worsening_level a \<noteq> NO_CHANGE)"
      by (simp add: analyze_worsening_level)
    from generate_severity [OF g] Inr Some g w show ?thesis
      by (cases "worsening_level a") (auto simp add: process_patient_cases)
  qed
qed

text \<open>The treated example patient: a category progression gives one alert, of severity HIGH.\<close>

theorem alert_iff_worsening_witness:
  "process_patient double_percent poor_adherence_patient [] =
     Inr (Some poor_adherence_alert, [poor_adherence_alert]) \<and>
   worsening_level (uacr_analysis poor_adherence_alert) = CATEGORY_PROGRESSION \<and>
   severity poor_adherence_alert = ''HIGH''"
proof -
  have p: "process_patient double_percent poor_adherence_patient [] =
             Inr (Some poor_adherence_alert, [poor_adherence_alert])"
    by (simp add: process_poor_adherence_patient)
  have l: "worsening_level (uacr_analysis poor_adherence_alert) = CATEGORY_PROGRESSION"
    by (simp add: poor_adherence_alert_def poor_adherence_trend_def)
  from alert_iff_worsening [of double_percent poor_adherence_patient "[]"] p l
  have "severity poor_adherence_alert = ''HIGH''"
    by blast
  with p l show ?thesis by simp
qed

text \<open>No handler stands between a failing analysis and the caller of the batch.\<close>

lemma process_patient_error:
  "analyze_uacr_change pct p = Inl e \<Longrightarrow> process_patient pct p alerts = Inl e"
  by (simp add: process_patient_cases)

lemma process_patient_ok:
  assumes "\<forall>e. analyze_uacr_change pct p \<noteq> Inl e"
  shows "\<exists>r alerts'. process_patient pct p alerts = Inr (r, alerts')"
proof (cases "analyze_uacr_change pct p")
  case (Inl e)
  with assms show ?thesis by simp
next
  case (Inr r)
  obtain al where "generate_clinical_alert p (the r) (Some (analyze_adherence p)) = Inr al"
    using generate_pipeline by blast
  with Inr show ?thesis
    by (cases r) (simp_all add: process_patient_cases)
qed

lemma process_loop_append:
  "process_loop pct (ps @ qs) alerts =
     (case process_loop pct ps alerts of
        Inl e \<Rightarrow> Inl e
      | Inr alerts' \<Rightarrow> process_loop pct qs alerts')"
  by (induction ps arbitrary: alerts) (auto split: sum.splits)

lemma process_loop_ok:
  "\<forall>q\<in>set ps. \<forall>e. analyze_uacr_change pct q \<noteq> Inl e \<Longrightarrow>
   \<exists>alerts'. process_loop pct ps alerts = Inr alerts'"
proof (induction ps arbitrary: alerts)
  case Nil
  show ?case by simp
next
  case (Cons q ps)
  from Cons.prems have "\<forall>e. analyze_uacr_change pct q \<noteq> Inl e" by simp
  from process_patient_ok [OF this] obtain r alerts' where
    "process_patient pct q alerts = Inr (r, alerts')" by blast
  moreover from Cons.prems have "\<forall>q\<in>set ps. \<forall>e. analyze_uacr_change pct q \<noteq> Inl e" by simp
  from Cons.IH [OF this] obtain alerts'' where "process_loop pct ps alerts' = Inr alerts''"
    by blast
  ultimately show ?case by simp
qed

lemma process_loop_first_failure:
  assumes "\<forall>q\<in>set ps. \<forall>e'. analyze_uacr_change pct q \<noteq> Inl e'"
    and "analyze_uacr_change pct p = Inl e"
  shows "process_loop pct (ps @ p # rest) alerts = Inl e"
proof -
  from process_loop_ok [OF assms(1)] obtain alerts' where
    "process_loop pct ps alerts = Inr alerts'" by blast
  with process_patient_error [OF assms(2)] show ?thesis
    by (simp add: process_loop_append)
qed

text \<open>
  C6, as amended. Whatever the computation \<open>pct\<close> of the percent change, the batch run
  stops at the first patient whose evaluation fails: the failure is the result of the run,
  whatever patients follow, and neither alerts nor a failure count are returned. The run
  returns its alerts exactly when no patient's evaluation fails.
\<close>

theorem batch_stops_at_first_failure:
  "((\<forall>q\<in>set ps. \<forall>e'. analyze_uacr_change pct q \<noteq> Inl e') \<and>
    analyze_uacr_change pct p = Inl e \<longrightarrow>
      process_database pct (ps @ p # rest) = Inl e) \<and>
   ((\<exists>alerts. process_database pct ps = Inr alerts) \<longleftrightarrow>
      (\<forall>q\<in>set ps. \<forall>e'. analyze_uacr_change pct q \<noteq> Inl e'))"
proof (intro conjI impI iffI)
  assume "(\<forall>q\<in>set ps. \<forall>e'. analyze_uacr_change pct q \<noteq> Inl e') \<and>
    analyze_uacr_change pct p = Inl e"
  then show "process_database pct (ps @ p # rest) = Inl e"
    by (simp add: process_database_def process_loop_first_failure)
next
  assume "\<forall>q\<in>set ps. \<forall>e'. analyze_uacr_change pct q \<noteq> Inl e'"
  then show "\<exists>alerts. process_database pct ps = Inr alerts"
    by (simp add: process_database_def process_loop_ok)
next
  assume ok: "\<exists>alerts. process_database pct ps = Inr alerts"
  show "\<forall>q\<in>set ps. \<forall>e'. analyze_uacr_change pct q \<noteq> Inl e'"
  proof (rule ccontr)
    assume "\<not> (\<forall>q\<in>set ps. \<forall>e'. analyze_uacr_change pct q \<noteq> Inl e')"
    then have "\<exists>q\<in>set ps. \<exists>e'. analyze_uacr_change pct q = Inl e'" by simp
    then obtain xs q ys where ps: "ps = xs @ q # ys"
      and q: "\<exists>e'. analyze_uacr_change pct q = Inl e'"
      and xs: "\<forall>x\<in>set xs. \<not> (\<exists>e'. analyze_uacr_change pct x = Inl e')"
      by (auto simp add: split_list_first_prop_iff)
    from q obtain e' where "analyze_uacr_change pct q = Inl e'" ..
    with xs have "process_loop pct (xs @ q # ys) [] = Inl e'"
      by (simp add: process_loop_first_failure)
    with ok ps show False by (simp add: process_database_def)
  qed
qed

text \<open>A batch of three whose second patient has a malformed date.\<close>

theorem batch_stops_at_first_failure_witness:
  "analyze_uacr_change double_percent bad_date_patient = Inl ValueError \<and>
   process_database double_percent
     ([band_edge_patient] @ bad_date_patient # [poor_adherence_patient]) = Inl ValueError \<and>
   process_database double_percent [band_edge_patient, poor_adherence_patient] =
     Inr [band_edge_alert, poor_adherence_alert]"
proof -
  have a: "\<forall>q\<in>set [band_edge_patient]. \<forall>e'. analyze_uacr_change double_percent q \<noteq> Inl e'"
    by (simp add: analyze_band_edge_patient)
  have b: "analyze_uacr_change double_percent bad_date_patient = Inl ValueError"
    by (rule analyze_bad_date_patient)
  have c: "process_database double_percent [band_edge_patient, poor_adherence_patient] =
             Inr [band_edge_alert, poor_adherence_alert]"
    by (simp add: process_database_def process_band_edge_patient process_poor_adherence_patient)
  from batch_stops_at_first_failure
         [of "[band_edge_patient]" double_percent bad_date_patient ValueError
             "[poor_adherence_patient]"] a b c
  show ?thesis by blast
qed

text \<open>
  C6 as the specification words it fails on the code: with a malformed date in the first
  patient the run returns the \<^verbatim>\<open>ValueError\<close>, not the alert that the second patient
  gives when processed alone, and no count of failures.
\<close>

theorem bad_date_aborts_batch_counterexample:
  "process_database double_percent [bad_date_patient, poor_adherence_patient] = Inl ValueError \<and>
   process_database double_percent [poor_adherence_patient] = Inr [poor_adherence_alert]"
  by (simp add: process_database_def process_patient_error analyze_bad_date_patient
      process_poor_adherence_patient)

text \<open>
  C3 at a patient whose previous value is 0: the analysis raises
  \<^verbatim>\<open>ZeroDivisionError\<close>, processing the patient raises it, and a batch that holds the
  patient returns it instead of the alert of the patient behind.
\<close>

theorem zero_previous_aborts_batch:
  "analyze_uacr_change double_percent zero_previous_patient = Inl ZeroDivisionError \<and>
   process_patient double_percent zero_previous_patient [] = Inl ZeroDivisionError \<and>
   process_database double_percent [zero_previous_patient, poor_adherence_patient] =
     Inl ZeroDivisionError \<and>
   process_database double_percent [poor_adherence_patient] = Inr [poor_adherence_alert]"
  by (simp add: process_database_def process_patient_error analyze_zero_previous_patient
      process_poor_adherence_patient)

end
